theory Spec2Isabelle
  imports Complex_Main
begin

section \<open>The numeric core of lifetimes/plotting.py\<close>

text \<open>
  The plotting functions of \<^verbatim>\<open>lifetimes/plotting.py\<close> compute an array, a table or a pair
  of series and hand it to matplotlib. The embedding below returns that value: the grid
  \<^verbatim>\<open>Z\<close>, the grouped frame, the plotted series. The calls into matplotlib are left out.

  Numbers: a float64 that holds a number is modelled by the real it denotes, so rounding
  is not part of this model. The one float that is not a number and that the code itself
  produces is the maximum of an empty column, which pandas returns as NaN.
\<close>

subsection \<open>Python errors, floats, columns\<close>

datatype error = ValueError | IndexError | KeyError

datatype float64 = Val real | NaN

text \<open>Arithmetic on floats: NaN is contagious.\<close>

fun lift2 :: "(real \<Rightarrow> real \<Rightarrow> real) \<Rightarrow> float64 \<Rightarrow> float64 \<Rightarrow> float64" where
  "lift2 f (Val a) (Val b) = Val (f a b)"
| "lift2 f _ _ = NaN"

definition fadd :: "float64 \<Rightarrow> float64 \<Rightarrow> float64" where
  "fadd = lift2 (+)"

definition fsub :: "float64 \<Rightarrow> float64 \<Rightarrow> float64" where
  "fsub = lift2 (-)"

definition fmul :: "float64 \<Rightarrow> float64 \<Rightarrow> float64" where
  "fmul = lift2 (*)"

definition fdiv :: "float64 \<Rightarrow> float64 \<Rightarrow> float64" where
  "fdiv = lift2 (/)"

text \<open>
  \<^verbatim>\<open>Series.max()\<close>: the largest entry of the column; NaN for a column without entries.
\<close>

fun series_max :: "real list \<Rightarrow> float64" where
  "series_max [] = NaN"
| "series_max (v # vs) = Val (fold max vs v)"

text \<open>
  Python's \<^verbatim>\<open>int(x)\<close> on a float: truncation towards zero; \<^verbatim>\<open>int(nan)\<close> raises
  ValueError.
\<close>

fun py_int :: "float64 \<Rightarrow> error + int" where
  "py_int NaN = Inl ValueError"
| "py_int (Val v) = Inr (if 0 \<le> v then \<lfloor>v\<rfloor> else \<lceil>v\<rceil>)"

subsection \<open>Two-dimensional arrays\<close>

text \<open>
  A numpy array of two dimensions: its shape and its rows. \<^verbatim>\<open>np.zeros\<close> refuses a negative
  dimension with ValueError; an assignment \<^verbatim>\<open>Z[i, j] = v\<close> outside the shape raises
  IndexError.
\<close>

record ndarray =
  shape :: "nat \<times> nat"
  rows :: "real list list"

definition zeros :: "int \<Rightarrow> int \<Rightarrow> error + ndarray" where
  "zeros r c =
     (if r < 0 \<or> c < 0 then Inl ValueError
      else Inr \<lparr>shape = (nat r, nat c), rows = replicate (nat r) (replicate (nat c) 0)\<rparr>)"

definition setitem :: "ndarray \<Rightarrow> nat \<Rightarrow> nat \<Rightarrow> real \<Rightarrow> error + ndarray" where
  "setitem Z i j v =
     (if i < fst (shape Z) \<and> j < snd (shape Z)
      then Inr (Z\<lparr>rows := (rows Z)[i := (rows Z ! i)[j := v]]\<rparr>)
      else Inl IndexError)"

text \<open>An array is well formed when its rows agree with its shape.\<close>

definition wf_array :: "ndarray \<Rightarrow> bool" where
  "wf_array Z = (length (rows Z) = fst (shape Z) \<and> list_all (\<lambda>row. length row = snd (shape Z)) (rows Z))"

text \<open>\<^verbatim>\<open>np.arange(n)\<close> for an integer \<^verbatim>\<open>n\<close>: 0, 1, ..., n - 1; empty when \<^verbatim>\<open>n <= 0\<close>.\<close>

definition arange :: "int \<Rightarrow> int list" where
  "arange n = map int [0..<nat n]"

subsection \<open>The fitted model\<close>

text \<open>
  The model is a handle with methods and a training dataset. Of \<^verbatim>\<open>model.data\<close> the code
  reads the columns \<^verbatim>\<open>frequency\<close> and \<^verbatim>\<open>T\<close>. The methods are parameters of the model.
  \<^verbatim>\<open>expected_number_of_purchases_up_to_time\<close> is called on a whole array of times; numpy
  applies it to each element, so the field is the function on one element.
  \<open>probability_alive_at\<close> is not called in \<^verbatim>\<open>plotting.py\<close>: it is the spec's
  \<^verbatim>\<open>probabilityAliveAt(age, frequency, recency)\<close>, which the alive path evaluates.
\<close>

record model =
  data_frequency :: "real list"
  data_T :: "real list"
  conditional_expected_number_of_purchases_up_to_time :: "real \<Rightarrow> real \<Rightarrow> real \<Rightarrow> real \<Rightarrow> real"
  expected_number_of_purchases_up_to_time :: "float64 \<Rightarrow> float64"
  conditional_probability_alive_matrix :: "int option \<Rightarrow> int option \<Rightarrow> ndarray"
  probability_alive_at :: "real \<Rightarrow> real \<Rightarrow> real \<Rightarrow> real"

subsection \<open>plot\_frequency\_recency\_matrix\<close>

text \<open>
  Lines 91 to 95: a bound that the caller left as None is read from the training data.
\<close>

definition default_bound :: "int option \<Rightarrow> real list \<Rightarrow> error + int" where
  "default_bound bound column =
     (case bound of None \<Rightarrow> py_int (series_max column) | Some b \<Rightarrow> Inr b)"

text \<open>
  Lines 98 to 100. The inner loop runs over \<^verbatim>\<open>enumerate(np.arange(max_x + 1))\<close> and assigns
  one cell of row \<^verbatim>\<open>i\<close> per step; the outer loop runs over
  \<^verbatim>\<open>enumerate(np.arange(max_t + 1))\<close>.
\<close>

fun fill_row :: "model \<Rightarrow> real \<Rightarrow> int \<Rightarrow> nat \<Rightarrow> int \<Rightarrow> (nat \<times> int) list \<Rightarrow> ndarray
    \<Rightarrow> error + ndarray" where
  "fill_row m T max_t i t_x [] Z = Inr Z"
| "fill_row m T max_t i t_x ((j, x) # rest) Z =
     (case setitem Z i j
        (conditional_expected_number_of_purchases_up_to_time m T (of_int x) (of_int t_x) (of_int max_t))
      of Inl e \<Rightarrow> Inl e
       | Inr Z' \<Rightarrow> fill_row m T max_t i t_x rest Z')"

fun fill_grid :: "model \<Rightarrow> real \<Rightarrow> int \<Rightarrow> int \<Rightarrow> (nat \<times> int) list \<Rightarrow> ndarray
    \<Rightarrow> error + ndarray" where
  "fill_grid m T max_x max_t [] Z = Inr Z"
| "fill_grid m T max_x max_t ((i, t_x) # rest) Z =
     (case fill_row m T max_t i t_x (enumerate 0 (arange (max_x + 1))) Z
      of Inl e \<Rightarrow> Inl e
       | Inr Z' \<Rightarrow> fill_grid m T max_x max_t rest Z')"

definition plot_frequency_recency_matrix ::
    "model \<Rightarrow> real \<Rightarrow> int option \<Rightarrow> int option \<Rightarrow> error + ndarray" where
  "plot_frequency_recency_matrix m T max_x max_t =
     (case default_bound max_x (data_frequency m) of Inl e \<Rightarrow> Inl e
      | Inr max_x' \<Rightarrow>
     (case default_bound max_t (data_T m) of Inl e \<Rightarrow> Inl e
      | Inr max_t' \<Rightarrow>
     (case zeros (max_t' + 1) (max_x' + 1) of Inl e \<Rightarrow> Inl e
      | Inr Z \<Rightarrow> fill_grid m T max_x' max_t' (enumerate 0 (arange (max_t' + 1))) Z)))"

subsection \<open>plot\_calibration\_purchases\_vs\_holdout\_purchases\<close>

text \<open>
  One row of \<^verbatim>\<open>calibration_holdout_matrix\<close>. The frame \<^verbatim>\<open>summary\<close> is the same rows with
  the column \<^verbatim>\<open>model_predictions\<close> added: a pair of the row and its prediction.
\<close>

record row =
  frequency_cal :: real
  recency_cal :: real
  T_cal :: real
  frequency_holdout :: real
  duration_holdout :: real

type_synonym summary_row = "row \<times> real"

definition mean :: "real list \<Rightarrow> real" where
  "mean vs = sum_list vs / real (length vs)"

text \<open>
  \<^verbatim>\<open>summary.groupby(key)[['frequency_holdout', 'model_predictions']].mean()\<close>: one line
  per distinct value of the key, the keys in ascending order (groupby sorts them), with
  the means of the two columns over the rows that carry the key.
\<close>

definition groupby_mean :: "(summary_row \<Rightarrow> real) \<Rightarrow> summary_row list \<Rightarrow> (real \<times> real \<times> real) list" where
  "groupby_mean key summary =
     map (\<lambda>k. (k, mean (map (\<lambda>r. frequency_holdout (fst r)) (filter (\<lambda>r. key r = k) summary)),
                  mean (map snd (filter (\<lambda>r. key r = k) summary))))
         (sort (remdups (map key summary)))"

text \<open>
  \<^verbatim>\<open>.ix[:n]\<close> on a frame whose index is numeric (the group keys): pandas slices such an
  index by label, not by position, and a label slice includes its end point. On the
  ascending index of the grouped frame the slice is the leading lines whose key is at
  most \<^verbatim>\<open>n\<close>.
\<close>

definition ix_upto :: "int \<Rightarrow> (real \<times> real \<times> real) list \<Rightarrow> (real \<times> real \<times> real) list" where
  "ix_upto n frame = takeWhile (\<lambda>line. fst line \<le> of_int n) frame"

text \<open>
  The column that \<^verbatim>\<open>groupby(kind)\<close> groups by. A \<^verbatim>\<open>kind\<close> outside the three columns and
  \<^verbatim>\<open>"time_since_last_purchase"\<close> has no entry in \<^verbatim>\<open>x_labels\<close>, and the function ends in
  KeyError.
\<close>

definition kind_column :: "string \<Rightarrow> (summary_row \<Rightarrow> real) option" where
  "kind_column kind =
     (if kind = ''frequency_cal'' then Some (\<lambda>r. frequency_cal (fst r))
      else if kind = ''recency_cal'' then Some (\<lambda>r. recency_cal (fst r))
      else if kind = ''T_cal'' then Some (\<lambda>r. T_cal (fst r))
      else None)"

text \<open>
  Lines 56 to 59: \<^verbatim>\<open>duration_holdout\<close> is read from the first row (\<^verbatim>\<open>iloc[0]\<close> raises
  IndexError on a frame without rows), and every row gets its prediction.
\<close>

definition model_predictions :: "model \<Rightarrow> row list \<Rightarrow> error + summary_row list" where
  "model_predictions m calibration_holdout_matrix =
     (case calibration_holdout_matrix of
        [] \<Rightarrow> Inl IndexError
      | first # _ \<Rightarrow>
          Inr (map (\<lambda>r. (r, conditional_expected_number_of_purchases_up_to_time m
                              (duration_holdout first) (frequency_cal r) (recency_cal r) (T_cal r)))
                   calibration_holdout_matrix))"

text \<open>Lines 61 to 65: the frame that is plotted.\<close>

definition plot_calibration_purchases_vs_holdout_purchases ::
    "model \<Rightarrow> row list \<Rightarrow> string \<Rightarrow> int \<Rightarrow> error + (real \<times> real \<times> real) list" where
  "plot_calibration_purchases_vs_holdout_purchases m calibration_holdout_matrix kind n =
     (case model_predictions m calibration_holdout_matrix of Inl e \<Rightarrow> Inl e
      | Inr summary \<Rightarrow>
          if kind = ''time_since_last_purchase''
          then Inr (ix_upto n (groupby_mean (\<lambda>r. T_cal (fst r) - recency_cal (fst r)) summary))
          else (case kind_column kind of None \<Rightarrow> Inl KeyError
                | Some column \<Rightarrow> Inr (ix_upto n (groupby_mean column summary))))"

subsection \<open>plot\_probability\_alive\_matrix\<close>

text \<open>Line 135: the matrix is the model's, with the arguments as the caller gave them.\<close>

definition plot_probability_alive_matrix :: "model \<Rightarrow> int option \<Rightarrow> int option \<Rightarrow> ndarray" where
  "plot_probability_alive_matrix m max_x max_t = conditional_probability_alive_matrix m max_x max_t"

subsection \<open>plot\_expected\_repeat\_purchases\<close>

text \<open>
  \<^verbatim>\<open>np.linspace(start, stop, num)\<close> with its end point: the step is
  \<^verbatim>\<open>(stop - start) / (num - 1)\<close>, the points are \<^verbatim>\<open>arange(0, num) * step + start\<close>, and
  the last point is then set to \<^verbatim>\<open>stop\<close>.
\<close>

definition linspace :: "float64 \<Rightarrow> float64 \<Rightarrow> nat \<Rightarrow> float64 list" where
  "linspace start stop num =
     (if num = 0 then []
      else if num = 1 then [start]
      else (let step = fdiv (fsub stop start) (Val (real (num - 1)));
                y = map (\<lambda>i. fadd (fmul (Val (real i)) step) start) [0..<num]
            in y[num - 1 := stop]))"

text \<open>
  Lines 163 to 169: the two curves that are plotted, each as its times and its values;
  the solid one first, the dashed one second.
\<close>

definition plot_expected_repeat_purchases ::
    "model \<Rightarrow> (float64 list \<times> float64 list) \<times> (float64 list \<times> float64 list)" where
  "plot_expected_repeat_purchases m =
     (let max_T = series_max (data_T m);
          times = linspace (Val 0) max_T 100;
          times' = linspace max_T (fmul (Val 1.5) max_T) 100
      in ((times, map (expected_number_of_purchases_up_to_time m) times),
          (times', map (expected_number_of_purchases_up_to_time m) times')))"

subsection \<open>plot\_history\_alive\<close>

text \<open>
  A transaction is its timestamp, in seconds. \<^verbatim>\<open>freq\<close> is a pandas frequency: the docstring
  names \<^verbatim>\<open>'D'\<close> and \<^verbatim>\<open>'W'\<close>; every frequency has a positive width.
\<close>

datatype freq = Hourly | Daily | Weekly

fun width :: "freq \<Rightarrow> int" where
  "width Hourly = 3600"
| "width Daily = 86400"
| "width Weekly = 604800"

text \<open>Python's \<^verbatim>\<open>min\<close> of a sequence raises ValueError when the sequence is empty.\<close>

fun py_min :: "int list \<Rightarrow> error + int" where
  "py_min [] = Inl ValueError"
| "py_min (t # ts) = Inr (fold min ts t)"

text \<open>
  The day of the week of a timestamp, Monday being 0 and Sunday 6 as in Python; the first
  of January 1970, where the seconds start, was a Thursday.
\<close>

definition weekday :: "int \<Rightarrow> int" where
  "weekday timestamp = (timestamp div 86400 + 3) mod 7"

text \<open>
  A frequency of hours or days fits every timestamp. \<^verbatim>\<open>'W'\<close> is anchored on Sundays: a
  timestamp on another day is rolled forward to the next Sunday, at the same time of
  day.
\<close>

fun rollforward :: "freq \<Rightarrow> int \<Rightarrow> int" where
  "rollforward Weekly timestamp = timestamp + ((6 - weekday timestamp) mod 7) * 86400"
| "rollforward Daily timestamp = timestamp"
| "rollforward Hourly timestamp = timestamp"

text \<open>
  \<^verbatim>\<open>pd.date_range(start, periods, freq)\<close>: \<^verbatim>\<open>start\<close> is rolled forward onto the frequency,
  and the \<^verbatim>\<open>periods\<close> dates follow from there, one width apart.
\<close>

definition date_range :: "int \<Rightarrow> nat \<Rightarrow> freq \<Rightarrow> int list" where
  "date_range start periods f = map (\<lambda>k. rollforward f start + int k * width f) [0..<periods]"

text \<open>
  Modelled from the spec: the discretisation inside \<^verbatim>\<open>calculate_alive_path\<close>, a function
  of \<^verbatim>\<open>lifetimes.utils\<close> that is missing from the source files. Section 4.4 of the spec
  cuts the timeline into buckets of the width of \<^verbatim>\<open>freq\<close>, starting at the earliest
  timestamp; that one is in bucket 0.
\<close>

definition bucket_of :: "int \<Rightarrow> freq \<Rightarrow> int \<Rightarrow> nat" where
  "bucket_of start f timestamp = nat ((timestamp - start) div width f)"

text \<open>
  Modelled from the spec: the value of the path at a bucket boundary \<open>t\<close>, computed inside
  the missing \<^verbatim>\<open>calculate_alive_path\<close>. By section 4.4 the frequency is the number of
  distinct transaction buckets strictly before \<open>t\<close>, minus one for the first transaction;
  the recency is the distance in buckets from the first transaction to the last
  transaction before \<open>t\<close>; the age is \<open>t\<close> minus the bucket of the first transaction; the
  value is the model's \<^verbatim>\<open>probabilityAliveAt(age, frequency, recency)\<close>, the field
  \<open>probability_alive_at\<close> of the model. The first transaction is in bucket 0.
\<close>

definition alive_at :: "model \<Rightarrow> nat list \<Rightarrow> nat \<Rightarrow> real" where
  "alive_at m buckets t =
     (let first_bucket = 0;
          before = filter (\<lambda>b. b < t) buckets;
          frequency = int (length (remdups before)) - 1;
          recency = fold max before first_bucket - first_bucket;
          age = t - first_bucket
      in probability_alive_at m (real age) (of_int frequency) (real recency))"

text \<open>
  Modelled from the spec: \<^verbatim>\<open>calculate_alive_path\<close> of \<^verbatim>\<open>lifetimes.utils\<close>, which
  \<^verbatim>\<open>plot_history_alive\<close> imports and calls on line 201 and which is missing from the source
  files. By sections 3 and 4.4 the path has one value per bucket, from the bucket of the
  first transaction to \<^verbatim>\<open>units\<close> buckets later. The value of bucket \<open>k\<close> is taken at the
  boundary \<open>k + 1\<close> that closes the bucket: only then do the transactions of the first
  bucket lie strictly before the boundary of the first value, which section 8 has reflect
  the frequency 0. Section 4.4 lets the data constrain the length and does not say how;
  the properties below are stated for transactions that all lie within the \<^verbatim>\<open>units\<close>
  buckets after the first one.
\<close>

fun calculate_alive_path :: "model \<Rightarrow> int list \<Rightarrow> nat \<Rightarrow> freq \<Rightarrow> real list" where
  "calculate_alive_path m [] units f = []"
| "calculate_alive_path m (t # ts) units f =
     (let start = fold min ts t;
          buckets = map (bucket_of start f) (t # ts)
      in map (\<lambda>k. alive_at m buckets (k + 1)) [0..<units + 1])"

text \<open>
  Lines 189, 201 and 202: the path and the dates it is plotted against. The default of
  \<^verbatim>\<open>start_date\<close> on line 189 is evaluated first, so a frame without transactions raises
  ValueError.
\<close>

definition plot_history_alive :: "model \<Rightarrow> int list \<Rightarrow> nat \<Rightarrow> freq \<Rightarrow> error + (int list \<times> real list)" where
  "plot_history_alive m transactions units f =
     (case py_min transactions of Inl e \<Rightarrow> Inl e
      | Inr first \<Rightarrow>
          (let path = calculate_alive_path m transactions units f;
               path_dates = date_range first (length path) f
           in Inr (path_dates, path)))"

subsection \<open>Models and data for the concrete cases\<close>

definition example_model :: model where
  "example_model =
     \<lparr>data_frequency = [0, 2, 5],
      data_T = [10, 20, 30],
      conditional_expected_number_of_purchases_up_to_time = (\<lambda>t x t_x T. t + x + 10 * t_x + 100 * T),
      expected_number_of_purchases_up_to_time = (\<lambda>t. fmul (Val 2) t),
      conditional_probability_alive_matrix = (\<lambda>max_x max_t. \<lparr>shape = (1, 1), rows = [[2]]\<rparr>),
      probability_alive_at = (\<lambda>age frequency recency. 1 / (1 + age + 10 * frequency + 100 * recency))\<rparr>"

definition other_model :: model where
  "other_model = example_model \<lparr>data_frequency := [7], data_T := [0]\<rparr>"

definition example_row :: "real \<Rightarrow> real \<Rightarrow> real \<Rightarrow> row" where
  "example_row x holdout duration =
     \<lparr>frequency_cal = x, recency_cal = 3, T_cal = 9,
      frequency_holdout = holdout, duration_holdout = duration\<rparr>"

section \<open>Properties\<close>

subsection \<open>The grid loops\<close>

lemma wf_zeros: "zeros r c = Inr Z \<Longrightarrow> wf_array Z \<and> shape Z = (nat r, nat c)"
  by (auto simp: zeros_def wf_array_def list_all_iff split: if_splits)

lemma setitem_ok:
  assumes "wf_array Z" "i < fst (shape Z)" "j < snd (shape Z)"
  shows "\<exists>Z'. setitem Z i j v = Inr Z' \<and> wf_array Z' \<and> shape Z' = shape Z
      \<and> (\<forall>a b. a < fst (shape Z) \<longrightarrow> b < snd (shape Z) \<longrightarrow>
            rows Z' ! a ! b = (if a = i \<and> b = j then v else rows Z ! a ! b))"
proof -
  have len: "length (rows Z) = fst (shape Z)"
    and row: "\<And>a. a < fst (shape Z) \<Longrightarrow> length (rows Z ! a) = snd (shape Z)"
    using assms(1) by (auto simp: wf_array_def list_all_length)
  let ?Z = "Z\<lparr>rows := (rows Z)[i := (rows Z ! i)[j := v]]\<rparr>"
  have "setitem Z i j v = Inr ?Z" using assms by (simp add: setitem_def)
  moreover have "wf_array ?Z"
    using assms len row by (auto simp: wf_array_def list_all_length nth_list_update)
  moreover have "\<forall>a b. a < fst (shape Z) \<longrightarrow> b < snd (shape Z) \<longrightarrow>
            rows ?Z ! a ! b = (if a = i \<and> b = j then v else rows Z ! a ! b)"
    using len row assms by (auto simp: nth_list_update)
  ultimately show ?thesis by auto
qed

lemma fill_row_ok:
  assumes "wf_array Z" "i < fst (shape Z)"
    and "list_all (\<lambda>(j, x). j < snd (shape Z) \<and> x = int j) ps"
  shows "\<exists>Z'. fill_row m T max_t i t_x ps Z = Inr Z' \<and> wf_array Z' \<and> shape Z' = shape Z
      \<and> (\<forall>a b. a < fst (shape Z) \<longrightarrow> b < snd (shape Z) \<longrightarrow>
            rows Z' ! a ! b =
              (if a = i \<and> b \<in> fst ` set ps
               then conditional_expected_number_of_purchases_up_to_time m T (real b) (of_int t_x) (of_int max_t)
               else rows Z ! a ! b))"
  using assms
proof (induction ps arbitrary: Z)
  case Nil
  then show ?case by simp
next
  case (Cons p ps)
  obtain j x where p: "p = (j, x)" by (cases p)
  from Cons.prems p have j: "j < snd (shape Z)" and x: "x = int j" by auto
  let ?v = "conditional_expected_number_of_purchases_up_to_time m T (of_int x) (of_int t_x) (of_int max_t)"
  from setitem_ok[OF Cons.prems(1,2) j, of ?v]
  obtain Z1 where Z1: "setitem Z i j ?v = Inr Z1" "wf_array Z1" "shape Z1 = shape Z"
    and c1: "\<And>a b. a < fst (shape Z) \<Longrightarrow> b < snd (shape Z) \<Longrightarrow>
            rows Z1 ! a ! b = (if a = i \<and> b = j then ?v else rows Z ! a ! b)"
    by blast
  from Cons.prems Z1 have "list_all (\<lambda>(j, x). j < snd (shape Z1) \<and> x = int j) ps" "i < fst (shape Z1)"
    by auto
  from Cons.IH[OF Z1(2) this(2) this(1)]
  obtain Z2 where Z2: "fill_row m T max_t i t_x ps Z1 = Inr Z2" "wf_array Z2" "shape Z2 = shape Z1"
    and c2: "\<And>a b. a < fst (shape Z1) \<Longrightarrow> b < snd (shape Z1) \<Longrightarrow>
            rows Z2 ! a ! b =
              (if a = i \<and> b \<in> fst ` set ps
               then conditional_expected_number_of_purchases_up_to_time m T (real b) (of_int t_x) (of_int max_t)
               else rows Z1 ! a ! b)"
    by blast
  have "fill_row m T max_t i t_x (p # ps) Z = Inr Z2"
    using p Z1(1) Z2(1) by simp
  moreover have "\<forall>a b. a < fst (shape Z) \<longrightarrow> b < snd (shape Z) \<longrightarrow>
            rows Z2 ! a ! b =
              (if a = i \<and> b \<in> fst ` set (p # ps)
               then conditional_expected_number_of_purchases_up_to_time m T (real b) (of_int t_x) (of_int max_t)
               else rows Z ! a ! b)"
    using c1 c2 Z1(3) p x by auto
  ultimately show ?case using Z2(2,3) Z1(3) by auto
qed


lemma enumerate_arange: "enumerate 0 (arange n) = map (\<lambda>j. (j, int j)) [0..<nat n]"
  by (simp add: arange_def enumerate_eq_zip zip_map2 zip_same_conv_map)

lemma enumerate_arange_all:
  "nat n \<le> c \<Longrightarrow> list_all (\<lambda>(j, x). j < c \<and> x = int j) (enumerate 0 (arange n))"
  by (simp add: enumerate_arange list_all_iff)

lemma enumerate_arange_fst: "fst ` set (enumerate 0 (arange n)) = {0..<nat n}"
  by (simp add: enumerate_arange image_image)

lemma fill_grid_ok:
  assumes "wf_array Z" "snd (shape Z) = nat (max_x + 1)"
    and "list_all (\<lambda>(i, t_x). i < fst (shape Z) \<and> t_x = int i) ps"
  shows "\<exists>Z'. fill_grid m T max_x max_t ps Z = Inr Z' \<and> wf_array Z' \<and> shape Z' = shape Z
      \<and> (\<forall>a b. a < fst (shape Z) \<longrightarrow> b < snd (shape Z) \<longrightarrow>
            rows Z' ! a ! b =
              (if a \<in> fst ` set ps
               then conditional_expected_number_of_purchases_up_to_time m T (real b) (real a) (of_int max_t)
               else rows Z ! a ! b))"
  using assms
proof (induction ps arbitrary: Z)
  case Nil
  then show ?case by simp
next
  case (Cons p ps)
  obtain i t_x where p: "p = (i, t_x)" by (cases p)
  from Cons.prems p have i: "i < fst (shape Z)" and t_x: "t_x = int i" by auto
  have inner: "list_all (\<lambda>(j, x). j < snd (shape Z) \<and> x = int j) (enumerate 0 (arange (max_x + 1)))"
    using Cons.prems(2) by (simp add: enumerate_arange_all)
  from fill_row_ok[OF Cons.prems(1) i inner, of m T max_t t_x]
  obtain Z1 where Z1: "fill_row m T max_t i t_x (enumerate 0 (arange (max_x + 1))) Z = Inr Z1"
      "wf_array Z1" "shape Z1 = shape Z"
    and c1: "\<And>a b. a < fst (shape Z) \<Longrightarrow> b < snd (shape Z) \<Longrightarrow>
            rows Z1 ! a ! b =
              (if a = i \<and> b \<in> fst ` set (enumerate 0 (arange (max_x + 1)))
               then conditional_expected_number_of_purchases_up_to_time m T (real b) (of_int t_x) (of_int max_t)
               else rows Z ! a ! b)"
    by blast
  have c1': "\<And>a b. a < fst (shape Z) \<Longrightarrow> b < snd (shape Z) \<Longrightarrow>
            rows Z1 ! a ! b =
              (if a = i
               then conditional_expected_number_of_purchases_up_to_time m T (real b) (real i) (of_int max_t)
               else rows Z ! a ! b)"
    using c1 Cons.prems(2) t_x by (simp add: enumerate_arange_fst)
  from Cons.prems Z1 have "snd (shape Z1) = nat (max_x + 1)"
      "list_all (\<lambda>(i, t_x). i < fst (shape Z1) \<and> t_x = int i) ps"
    by auto
  from Cons.IH[OF Z1(2) this]
  obtain Z2 where Z2: "fill_grid m T max_x max_t ps Z1 = Inr Z2" "wf_array Z2" "shape Z2 = shape Z1"
    and c2: "\<And>a b. a < fst (shape Z1) \<Longrightarrow> b < snd (shape Z1) \<Longrightarrow>
            rows Z2 ! a ! b =
              (if a \<in> fst ` set ps
               then conditional_expected_number_of_purchases_up_to_time m T (real b) (real a) (of_int max_t)
               else rows Z1 ! a ! b)"
    by blast
  have "fill_grid m T max_x max_t (p # ps) Z = Inr Z2"
    using p Z1(1) Z2(1) by simp
  moreover have "\<forall>a b. a < fst (shape Z) \<longrightarrow> b < snd (shape Z) \<longrightarrow>
            rows Z2 ! a ! b =
              (if a \<in> fst ` set (p # ps)
               then conditional_expected_number_of_purchases_up_to_time m T (real b) (real a) (of_int max_t)
               else rows Z ! a ! b)"
    using c1' c2 Z1(3) p by auto
  ultimately show ?case using Z2(2,3) Z1(3) by auto
qed

lemma grid_filled:
  assumes x: "default_bound max_x (data_frequency m) = Inr x"
    and t: "default_bound max_t (data_T m) = Inr t"
    and nonneg: "- 1 \<le> x" "- 1 \<le> t"
  shows "\<exists>Z. plot_frequency_recency_matrix m T max_x max_t = Inr Z
      \<and> wf_array Z \<and> shape Z = (nat (t + 1), nat (x + 1))
      \<and> (\<forall>a b. a < nat (t + 1) \<longrightarrow> b < nat (x + 1) \<longrightarrow>
            rows Z ! a ! b =
              conditional_expected_number_of_purchases_up_to_time m T (real b) (real a) (of_int t))"
proof -
  obtain Z0 where Z0: "zeros (t + 1) (x + 1) = Inr Z0"
    using nonneg by (auto simp: zeros_def)
  from wf_zeros[OF Z0] have wf: "wf_array Z0" and sh: "shape Z0 = (nat (t + 1), nat (x + 1))"
    by auto
  have outer: "list_all (\<lambda>(i, t_x). i < fst (shape Z0) \<and> t_x = int i) (enumerate 0 (arange (t + 1)))"
    using sh by (simp add: enumerate_arange_all)
  from fill_grid_ok[OF wf _ outer, of x m T t] sh
  obtain Z where Z: "fill_grid m T x t (enumerate 0 (arange (t + 1))) Z0 = Inr Z" "shape Z = shape Z0"
      "wf_array Z"
    and c: "\<And>a b. a < fst (shape Z0) \<Longrightarrow> b < snd (shape Z0) \<Longrightarrow>
            rows Z ! a ! b =
              (if a \<in> fst ` set (enumerate 0 (arange (t + 1)))
               then conditional_expected_number_of_purchases_up_to_time m T (real b) (real a) (of_int t)
               else rows Z0 ! a ! b)"
    by auto
  have "plot_frequency_recency_matrix m T max_x max_t = Inr Z"
    using x t Z0 Z(1) by (simp add: plot_frequency_recency_matrix_def)
  moreover have "\<forall>a b. a < nat (t + 1) \<longrightarrow> b < nat (x + 1) \<longrightarrow>
            rows Z ! a ! b =
              conditional_expected_number_of_purchases_up_to_time m T (real b) (real a) (of_int t)"
    using c sh by (simp add: enumerate_arange_fst)
  ultimately show ?thesis using Z(2,3) sh by auto
qed

lemma fill_row_cong:
  assumes "conditional_expected_number_of_purchases_up_to_time m1 =
     conditional_expected_number_of_purchases_up_to_time m2"
  shows "fill_row m1 T max_t i t_x ps Z = fill_row m2 T max_t i t_x ps Z"
proof (induction ps arbitrary: Z)
  case Nil
  show ?case by simp
next
  case (Cons p ps)
  obtain j x where p: "p = (j, x)" by (cases p)
  show ?case unfolding p fill_row.simps assms
    by (simp add: Cons.IH split: sum.splits)
qed

lemma fill_grid_cong:
  assumes "conditional_expected_number_of_purchases_up_to_time m1 =
     conditional_expected_number_of_purchases_up_to_time m2"
  shows "fill_grid m1 T max_x max_t ps Z = fill_grid m2 T max_x max_t ps Z"
proof (induction ps arbitrary: Z)
  case Nil
  show ?case by simp
next
  case (Cons p ps)
  obtain i t_x where p: "p = (i, t_x)" by (cases p)
  show ?case unfolding p fill_grid.simps fill_row_cong[OF assms]
    by (simp add: Cons.IH split: sum.splits)
qed

subsection \<open>The frequency and recency grid\<close>

text \<open>
  Claim C1. Let \<open>x\<close> and \<open>t\<close> be the bounds of the grid, given by the caller or read from
  the training data, both at least 0. Then \<^verbatim>\<open>plot_frequency_recency_matrix\<close> builds a grid,
  and for every recency \<open>r\<close> in \<open>[0, t]\<close> and frequency \<open>f\<close> in \<open>[0, x]\<close> the cell
  \<open>[r][f]\<close> is the model's conditional expected number of purchases up to \<open>T\<close> at
  frequency \<open>f\<close>, recency \<open>r\<close> and age \<open>t\<close>: the age of every cell is the largest
  recency of the grid.
\<close>

theorem grid_cell_is_model_call:
  "default_bound max_x (data_frequency m) = Inr x \<Longrightarrow>
   default_bound max_t (data_T m) = Inr t \<Longrightarrow>
   0 \<le> x \<Longrightarrow> 0 \<le> t \<Longrightarrow> int r \<le> t \<Longrightarrow> int f \<le> x \<Longrightarrow>
   \<exists>Z. plot_frequency_recency_matrix m T max_x max_t = Inr Z \<and>
       rows Z ! r ! f =
         conditional_expected_number_of_purchases_up_to_time m T (real f) (real r) (of_int t)"
proof -
  assume x: "default_bound max_x (data_frequency m) = Inr x"
    and t: "default_bound max_t (data_T m) = Inr t"
    and b: "0 \<le> x" "0 \<le> t" "int r \<le> t" "int f \<le> x"
  from b have "- 1 \<le> x" "- 1 \<le> t" by simp_all
  from grid_filled[OF x t this, of T]
  obtain Z where Z: "plot_frequency_recency_matrix m T max_x max_t = Inr Z"
    and c: "\<And>a b. a < nat (t + 1) \<Longrightarrow> b < nat (x + 1) \<Longrightarrow>
            rows Z ! a ! b =
              conditional_expected_number_of_purchases_up_to_time m T (real b) (real a) (of_int t)"
    by blast
  from b have "r < nat (t + 1)" "f < nat (x + 1)" by linarith+
  from c[OF this] Z show ?thesis by blast
qed

text \<open>The cell of recency 7 and frequency 2 of a grid with the default largest recency 30.\<close>

theorem grid_cell_is_model_call_witness:
  "\<exists>Z. plot_frequency_recency_matrix example_model 1 (Some 2) None = Inr Z \<and>
       rows Z ! 7 ! 2 = 3073"
  using grid_cell_is_model_call [of "Some 2" example_model 2 None 30 7 2 1]
  by (simp add: default_bound_def example_model_def)

text \<open>
  Claim C2. For bounds \<open>x\<close> and \<open>t\<close> that are at least 0 the grid has the shape
  \<open>(t + 1, x + 1)\<close>, in its shape and in its rows. A bound that the caller gives is taken
  as it is; a bound left as None is the largest entry of the column of the training
  data (\<^verbatim>\<open>frequency\<close> for \<open>x\<close>, \<^verbatim>\<open>T\<close> for \<open>t\<close>), truncated to an integer. With the
  frequencies 0, 2, 5 and the ages 10, 20, 30 and no bound given, the shape is \<open>(31, 6)\<close>.
\<close>

theorem grid_shape:
  "(default_bound max_x (data_frequency m) = Inr x \<and> default_bound max_t (data_T m) = Inr t \<and>
      0 \<le> x \<and> 0 \<le> t \<longrightarrow>
      (\<exists>Z. plot_frequency_recency_matrix m T max_x max_t = Inr Z \<and>
           shape Z = (nat (t + 1), nat (x + 1)) \<and> length (rows Z) = nat (t + 1) \<and>
           list_all (\<lambda>row. length row = nat (x + 1)) (rows Z))) \<and>
   default_bound (Some b) column = Inr b \<and>
   default_bound None (v # vs) = py_int (Val (fold max vs v)) \<and>
   (data_frequency m' = [0, 2, 5] \<and> data_T m' = [10, 20, 30] \<longrightarrow>
      (\<exists>Z. plot_frequency_recency_matrix m' T' None None = Inr Z \<and> shape Z = (31, 6)))"
proof -
  have general: "default_bound max_x (data_frequency m) = Inr x \<and> default_bound max_t (data_T m) = Inr t \<and>
      0 \<le> x \<and> 0 \<le> t \<longrightarrow>
      (\<exists>Z. plot_frequency_recency_matrix m T max_x max_t = Inr Z \<and>
           shape Z = (nat (t + 1), nat (x + 1)) \<and> length (rows Z) = nat (t + 1) \<and>
           list_all (\<lambda>row. length row = nat (x + 1)) (rows Z))"
    for m T max_x max_t x t
  proof
    assume a: "default_bound max_x (data_frequency m) = Inr x \<and> default_bound max_t (data_T m) = Inr t \<and>
      0 \<le> x \<and> 0 \<le> t"
    then have "- 1 \<le> x" "- 1 \<le> t" by simp_all
    from grid_filled[OF _ _ this, of max_x m max_t T] a
    obtain Z where "plot_frequency_recency_matrix m T max_x max_t = Inr Z" "wf_array Z"
        "shape Z = (nat (t + 1), nat (x + 1))"
      by blast
    then show "\<exists>Z. plot_frequency_recency_matrix m T max_x max_t = Inr Z \<and>
           shape Z = (nat (t + 1), nat (x + 1)) \<and> length (rows Z) = nat (t + 1) \<and>
           list_all (\<lambda>row. length row = nat (x + 1)) (rows Z)"
      by (auto simp: wf_array_def)
  qed
  have scenario: "data_frequency m' = [0, 2, 5] \<and> data_T m' = [10, 20, 30] \<longrightarrow>
      (\<exists>Z. plot_frequency_recency_matrix m' T' None None = Inr Z \<and> shape Z = (31, 6))"
  proof
    assume d: "data_frequency m' = [0, 2, 5] \<and> data_T m' = [10, 20, 30]"
    then have "default_bound None (data_frequency m') = Inr 5" "default_bound None (data_T m') = Inr 30"
      by (simp_all add: default_bound_def)
    with general[of None m' 5 None 30 T']
    show "\<exists>Z. plot_frequency_recency_matrix m' T' None None = Inr Z \<and> shape Z = (31, 6)"
      by auto
  qed
  show ?thesis using general scenario by (simp add: default_bound_def)
qed

text \<open>The scenario on a model with that training data.\<close>

theorem grid_shape_witness:
  "\<exists>Z. plot_frequency_recency_matrix example_model 1 None None = Inr Z \<and> shape Z = (31, 6) \<and>
       length (rows Z) = 31 \<and> list_all (\<lambda>row. length row = 6) (rows Z)"
  using grid_shape [of None example_model 5 None 30 1 0 "[]" 0 "[]" example_model 1]
  by (simp add: default_bound_def example_model_def)

text \<open>
  Claim C10. With both bounds given by the caller, the grid does not depend on the
  training data: two models with the same conditional expectation yield the same result,
  whatever their data.
\<close>

theorem explicit_bounds_ignore_data:
  "conditional_expected_number_of_purchases_up_to_time m1 =
     conditional_expected_number_of_purchases_up_to_time m2 \<Longrightarrow>
   plot_frequency_recency_matrix m1 T (Some max_x) (Some max_t) =
     plot_frequency_recency_matrix m2 T (Some max_x) (Some max_t)"
  unfolding plot_frequency_recency_matrix_def default_bound_def
  by (simp add: fill_grid_cong[of m1 m2] split: sum.splits)

text \<open>Two models that differ in both columns of the training data.\<close>

theorem explicit_bounds_ignore_data_witness:
  "data_frequency example_model \<noteq> data_frequency other_model \<and>
   data_T example_model \<noteq> data_T other_model \<and>
   plot_frequency_recency_matrix example_model 1 (Some 3) (Some 4) =
     plot_frequency_recency_matrix other_model 1 (Some 3) (Some 4)"
  using explicit_bounds_ignore_data [of example_model other_model 1 3 4]
  by (simp add: example_model_def other_model_def)

subsection \<open>The repeat purchase curves\<close>

lemma linspace_length: "length (linspace start stop num) = num"
  by (simp add: linspace_def Let_def)

lemma linspace_last: "2 \<le> num \<Longrightarrow> last (linspace start stop num) = stop"
  by (simp add: linspace_def Let_def last_list_update)

lemma linspace_Val:
  assumes "2 \<le> num"
  shows "linspace (Val a) (Val b) num =
     map (\<lambda>i. Val (a + real i * ((b - a) / real (num - 1)))) [0..<num]"
proof (rule nth_equalityI)
  show "length (linspace (Val a) (Val b) num) =
      length (map (\<lambda>i. Val (a + real i * ((b - a) / real (num - 1)))) [0..<num])"
    by (simp add: linspace_length)
next
  fix i assume "i < length (linspace (Val a) (Val b) num)"
  then have i: "i < num" by (simp add: linspace_length)
  have n: "real (num - 1) \<noteq> 0" using assms by simp
  show "linspace (Val a) (Val b) num ! i =
      map (\<lambda>i. Val (a + real i * ((b - a) / real (num - 1)))) [0..<num] ! i"
  proof (cases "i = num - 1")
    case True
    have "a + real (num - 1) * ((b - a) / real (num - 1)) = b"
      using n by simp
    with True i assms show ?thesis
      by (simp add: linspace_def Let_def fadd_def fsub_def fmul_def fdiv_def)
  next
    case False
    with i assms show ?thesis
      by (simp add: linspace_def Let_def fadd_def fsub_def fmul_def fdiv_def add.commute)
  qed
qed

lemma linspace_hd_NaN: "2 \<le> num \<Longrightarrow> hd (linspace NaN stop num) = NaN"
  by (simp add: linspace_def Let_def hd_conv_nth fadd_def nth_list_update)

lemma linspace_hd_Val: "2 \<le> num \<Longrightarrow> hd (linspace (Val a) (Val b) num) = Val a"
  by (simp add: linspace_Val hd_conv_nth)

text \<open>
  Claim C6. Let \<open>t\<close> be the largest age of the training data. The solid curve of
  \<^verbatim>\<open>plot_expected_repeat_purchases\<close> has exactly 100 times, evenly spaced from 0 to \<open>t\<close>;
  the dashed curve has exactly 100 times, evenly spaced from \<open>t\<close> to \<open>1.5 * t\<close>; the
  values of both curves are the model's expected number of purchases at these times.
\<close>

theorem repeat_purchase_series:
  "series_max (data_T m) = Val t \<Longrightarrow>
   plot_expected_repeat_purchases m = ((solid_times, solid_purchases), (dashed_times, dashed_purchases)) \<Longrightarrow>
   length solid_times = 100 \<and> length dashed_times = 100 \<and>
   solid_times = map (\<lambda>i. Val (0 + real i * ((t - 0) / 99))) [0..<100] \<and>
   dashed_times = map (\<lambda>i. Val (t + real i * ((1.5 * t - t) / 99))) [0..<100] \<and>
   hd solid_times = Val 0 \<and> last solid_times = Val t \<and> hd dashed_times = Val t \<and> last dashed_times = Val (1.5 * t) \<and>
   solid_purchases = map (expected_number_of_purchases_up_to_time m) solid_times \<and>
   dashed_purchases = map (expected_number_of_purchases_up_to_time m) dashed_times"
proof -
  assume t: "series_max (data_T m) = Val t"
    and p: "plot_expected_repeat_purchases m = ((solid_times, solid_purchases), (dashed_times, dashed_purchases))"
  have st: "solid_times = linspace (Val 0) (Val t) 100"
    and dt: "dashed_times = linspace (Val t) (Val (1.5 * t)) 100"
    and ps: "solid_purchases = map (expected_number_of_purchases_up_to_time m) solid_times"
      "dashed_purchases = map (expected_number_of_purchases_up_to_time m) dashed_times"
    using p t by (auto simp: plot_expected_repeat_purchases_def Let_def fmul_def)
  have "solid_times = map (\<lambda>i. Val (0 + real i * ((t - 0) / 99))) [0..<100]"
    unfolding st by (subst linspace_Val) simp_all
  moreover have "dashed_times = map (\<lambda>i. Val (t + real i * ((1.5 * t - t) / 99))) [0..<100]"
    unfolding dt by (subst linspace_Val) simp_all
  moreover have "hd solid_times = Val 0" "last solid_times = Val t" "hd dashed_times = Val t" "last dashed_times = Val (1.5 * t)"
    unfolding st dt by (simp_all add: linspace_hd_Val linspace_last)
  moreover have "length solid_times = 100" "length dashed_times = 100"
    unfolding st dt by (simp_all add: linspace_length)
  ultimately show ?thesis using ps by blast
qed

text \<open>With the largest age 10 the times run from 0 to 10 and from 10 to 15.\<close>

theorem repeat_purchase_series_witness:
  "\<exists>solid_times solid_purchases dashed_times dashed_purchases.
     plot_expected_repeat_purchases (example_model\<lparr>data_T := [4, 10, 7]\<rparr>)
       = ((solid_times, solid_purchases), (dashed_times, dashed_purchases)) \<and>
     length solid_times = 100 \<and> length dashed_times = 100 \<and>
     hd solid_times = Val 0 \<and> last solid_times = Val 10 \<and> hd dashed_times = Val 10 \<and> last dashed_times = Val 15"
proof -
  obtain solid_times solid_purchases dashed_times dashed_purchases where
    p: "plot_expected_repeat_purchases (example_model\<lparr>data_T := [4, 10, 7]\<rparr>)
       = ((solid_times, solid_purchases), (dashed_times, dashed_purchases))"
    by (metis surj_pair)
  have t: "series_max (data_T (example_model\<lparr>data_T := [4, 10, 7]\<rparr>)) = Val 10"
    by simp
  from repeat_purchase_series [OF t p]
  have "length solid_times = 100 \<and> length dashed_times = 100 \<and>
     hd solid_times = Val 0 \<and> last solid_times = Val 10 \<and> hd dashed_times = Val 10 \<and>
     last dashed_times = Val (1.5 * 10)"
    by blast
  then have "length solid_times = 100 \<and> length dashed_times = 100 \<and>
     hd solid_times = Val 0 \<and> last solid_times = Val 10 \<and> hd dashed_times = Val 10 \<and>
     last dashed_times = Val 15"
    by simp
  with p show ?thesis by blast
qed

text \<open>
  Claim C9. The two curves meet: the last time of the solid curve and the first time of
  the dashed curve are both the largest age of the training data, both curves map it
  through the same function of the model, and so the last value of the solid curve is the
  first value of the dashed one. (Without training data the largest age is NaN, and so
  are both times.)
\<close>

theorem curves_meet:
  "last (fst (fst (plot_expected_repeat_purchases m))) = series_max (data_T m) \<and>
   hd (fst (snd (plot_expected_repeat_purchases m))) = series_max (data_T m) \<and>
   last (snd (fst (plot_expected_repeat_purchases m))) =
     expected_number_of_purchases_up_to_time m (series_max (data_T m)) \<and>
   hd (snd (snd (plot_expected_repeat_purchases m))) =
     expected_number_of_purchases_up_to_time m (series_max (data_T m)) \<and>
   last (snd (fst (plot_expected_repeat_purchases m))) =
     hd (snd (snd (plot_expected_repeat_purchases m)))"
proof -
  let ?T = "series_max (data_T m)"
  let ?a = "linspace (Val 0) ?T 100"
  let ?b = "linspace ?T (fmul (Val 1.5) ?T) 100"
  have ne: "?a \<noteq> []" "?b \<noteq> []"
    using linspace_length[of "Val 0" ?T 100] linspace_length[of ?T "fmul (Val 1.5) ?T" 100]
    by auto
  have la: "last ?a = ?T" by (simp add: linspace_last)
  have hb: "hd ?b = ?T"
    by (cases ?T) (simp_all add: fmul_def linspace_hd_Val linspace_hd_NaN)
  show ?thesis
    using ne la hb
    by (simp add: plot_expected_repeat_purchases_def Let_def last_map hd_map)
qed

text \<open>
  Claim C7 says that a largest age of 0 or less makes the function fail with a
  configuration error. The code has no such check. With the single age 0 in the training
  data it returns two curves of 100 points each, all at time 0.
\<close>

theorem zero_age_returns_series:
  "series_max (data_T other_model) = Val 0 \<and>
   plot_expected_repeat_purchases other_model =
     ((replicate 100 (Val 0), replicate 100 (Val 0)), (replicate 100 (Val 0), replicate 100 (Val 0)))"
proof -
  have l: "linspace (Val 0) (Val 0) 100 = replicate 100 (Val 0)"
    by (subst linspace_Val) (simp_all add: map_replicate_const)
  show ?thesis
    by (simp add: plot_expected_repeat_purchases_def Let_def other_model_def example_model_def fmul_def l)
qed

text \<open>
  Claim C7, amended. For a largest age \<open>t\<close> of 0 or less the function returns both
  curves as for any other age, each of 100 times and 100 values, the solid one ending at
  \<open>t\<close> and the dashed one at \<open>1.5 * t\<close>; nothing is raised.
\<close>

theorem nonpositive_age_series:
  "series_max (data_T m) = Val t \<Longrightarrow> t \<le> 0 \<Longrightarrow>
   \<exists>solid_times solid_purchases dashed_times dashed_purchases.
     plot_expected_repeat_purchases m =
       ((solid_times, solid_purchases), (dashed_times, dashed_purchases)) \<and>
     length solid_times = 100 \<and> length solid_purchases = 100 \<and>
     length dashed_times = 100 \<and> length dashed_purchases = 100 \<and>
     last solid_times = Val t \<and> last dashed_times = Val (1.5 * t)"
  by (simp add: plot_expected_repeat_purchases_def Let_def fmul_def linspace_length linspace_last)

text \<open>The model whose training data holds the single age 0.\<close>

theorem nonpositive_age_series_witness:
  "\<exists>solid_times solid_purchases dashed_times dashed_purchases.
     plot_expected_repeat_purchases other_model =
       ((solid_times, solid_purchases), (dashed_times, dashed_purchases)) \<and>
     length solid_times = 100 \<and> length solid_purchases = 100 \<and>
     length dashed_times = 100 \<and> length dashed_purchases = 100 \<and>
     last solid_times = Val 0 \<and> last dashed_times = Val 0"
proof -
  have t: "series_max (data_T other_model) = Val 0"
    by (simp add: other_model_def)
  from nonpositive_age_series [OF t] show ?thesis by simp
qed

subsection \<open>Calibration against holdout\<close>

text \<open>
  Claim C3 says that the grouped frame is cut to its first \<open>n\<close> groups. The code cuts
  it with \<^verbatim>\<open>.ix[:n]\<close>, which on the numeric index of the grouped frame selects by label:
  it keeps the groups whose key is at most \<open>n\<close>. On four rows with the keys 1, 0, 2, 0
  and \<open>n = 1\<close> the frame is grouped by exact key, the means are taken per group, the
  groups are in ascending order, and two groups are returned where the first \<open>n\<close> groups
  are one.
\<close>

theorem label_slice_keeps_keys_up_to_n:
  "plot_calibration_purchases_vs_holdout_purchases example_model
     [example_row 1 6 5, example_row 0 4 5, example_row 2 8 5, example_row 0 2 5]
     ''frequency_cal'' 1
   = Inr [(0, 3, 935), (1, 6, 936)]"
  by (simp add: plot_calibration_purchases_vs_holdout_purchases_def model_predictions_def
      kind_column_def groupby_mean_def ix_upto_def mean_def example_model_def example_row_def)

text \<open>
  Claim C4 says that rows whose \<^verbatim>\<open>duration_holdout\<close> differ make the function fail. The
  code does not compare them: on two rows with the durations 5 and 9 it returns the frame,
  with both predictions made for the duration 5 of the first row.
\<close>

theorem duration_mismatch_not_detected:
  "duration_holdout (example_row 0 4 5) \<noteq> duration_holdout (example_row 1 6 9) \<and>
   plot_calibration_purchases_vs_holdout_purchases example_model
     [example_row 0 4 5, example_row 1 6 9] ''frequency_cal'' 7
   = Inr [(0, 4, 935), (1, 6, 936)]"
  by (simp add: plot_calibration_purchases_vs_holdout_purchases_def model_predictions_def
      kind_column_def groupby_mean_def ix_upto_def mean_def example_model_def example_row_def)

text \<open>
  Claim C4, amended. The function reads \<^verbatim>\<open>duration_holdout\<close> from the first row and does
  not check the other rows; without any row it raises IndexError. The prediction of every row is the model's conditional
  expected number of purchases up to that duration at the row's \<^verbatim>\<open>frequency_cal\<close>,
  \<^verbatim>\<open>recency_cal\<close> and \<^verbatim>\<open>T_cal\<close>; this holds as well when the durations of the other
  rows are replaced by any values \<open>d\<close>.
\<close>

theorem predictions_use_first_duration:
  "model_predictions m [] = Inl IndexError \<and>
   model_predictions m (first # rest) =
     Inr (map (\<lambda>r. (r, conditional_expected_number_of_purchases_up_to_time m
                         (duration_holdout first) (frequency_cal r) (recency_cal r) (T_cal r)))
              (first # rest)) \<and>
   model_predictions m (first # map (\<lambda>r. r\<lparr>duration_holdout := d r\<rparr>) rest) =
     Inr (map (\<lambda>r. (r, conditional_expected_number_of_purchases_up_to_time m
                         (duration_holdout first) (frequency_cal r) (recency_cal r) (T_cal r)))
              (first # map (\<lambda>r. r\<lparr>duration_holdout := d r\<rparr>) rest))"
  by (simp add: model_predictions_def comp_def)

subsection \<open>The probability alive matrix\<close>

text \<open>
  Claim C5 says that \<^verbatim>\<open>plot_probability_alive_matrix\<close> derives missing bounds from the
  training data and rejects a matrix of the wrong shape or with a value outside
  \<open>[0, 1]\<close>. The code does neither. A model that answers every request with the one
  by one matrix holding 2 gets this matrix back for the bounds 3 and 4, where the shape
  should be 5 by 4, and for no bounds at all.
\<close>

theorem alive_matrix_not_validated:
  "plot_probability_alive_matrix example_model (Some 3) (Some 4) = \<lparr>shape = (1, 1), rows = [[2]]\<rparr> \<and>
   plot_probability_alive_matrix example_model None None = \<lparr>shape = (1, 1), rows = [[2]]\<rparr> \<and>
   \<not> list_all (list_all (\<lambda>v. 0 \<le> v \<and> v \<le> 1))
       (rows (plot_probability_alive_matrix example_model (Some 3) (Some 4)))"
  by (simp add: plot_probability_alive_matrix_def example_model_def)

text \<open>
  Claim C5, amended. \<^verbatim>\<open>plot_probability_alive_matrix\<close> passes both bounds to the model as
  the caller gave them, None included, and its matrix is the one the model returns,
  unchanged and unchecked.
\<close>

theorem alive_matrix_is_models:
  "plot_probability_alive_matrix m max_x max_t = conditional_probability_alive_matrix m max_x max_t"
  by (simp add: plot_probability_alive_matrix_def)

subsection \<open>The alive path\<close>

lemma calculate_alive_path_length:
  "transactions \<noteq> [] \<Longrightarrow> length (calculate_alive_path m transactions units f) = units + 1"
  by (cases transactions) (simp_all add: Let_def)

lemma py_min_Min: "transactions \<noteq> [] \<Longrightarrow> py_min transactions = Inr (Min (set transactions))"
proof (cases transactions)
  case Nil
  assume "transactions \<noteq> []"
  with Nil show ?thesis by simp
next
  case (Cons t ts)
  show ?thesis unfolding Cons using Min.set_eq_fold[of t ts] by simp
qed

lemma fold_max_zero:
  fixes bs :: "nat list"
  assumes "0 \<in> set bs"
  shows "fold max bs 0 = Max (set bs)"
proof -
  have "Max (set (0 # bs)) = fold max bs 0" by (rule Max.set_eq_fold)
  moreover have "set (0 # bs) = set bs" using assms by auto
  ultimately show ?thesis by simp
qed

lemma alive_at_sets:
  assumes "0 \<in> set buckets"
  shows "alive_at m buckets (k + 1) =
     probability_alive_at m (real (k + 1))
       (real (card (set buckets \<inter> {..k})) - 1)
       (real (Max (set buckets \<inter> {..k})))"
proof -
  let ?before = "filter (\<lambda>b. b < k + 1) buckets"
  have s: "set ?before = set buckets \<inter> {..k}" by auto
  have z: "0 \<in> set ?before" using assms by simp
  have "length (remdups ?before) = card (set buckets \<inter> {..k})"
    using s by (simp add: length_remdups_card_conv)
  moreover have "fold max ?before 0 = Max (set buckets \<inter> {..k})"
    using fold_max_zero[OF z] s by simp
  ultimately show ?thesis
    by (simp add: alive_at_def Let_def)
qed

lemma calculate_alive_path_nth:
  assumes ne: "transactions \<noteq> []" and k: "k \<le> units"
  shows "calculate_alive_path m transactions units f ! k =
     alive_at m (map (bucket_of (Min (set transactions)) f) transactions) (k + 1)"
proof -
  obtain t ts where tr: "transactions = t # ts" using ne by (cases transactions) auto
  have start: "fold min ts t = Min (set transactions)"
    unfolding tr using Min.set_eq_fold[of t ts] by simp
  have "calculate_alive_path m transactions units f =
      map (\<lambda>k. alive_at m (map (bucket_of (Min (set transactions)) f) transactions) (k + 1))
        [0..<units + 1]"
    using start unfolding tr by (simp add: Let_def)
  then show ?thesis using k by (simp del: upt_Suc)
qed

lemma first_bucket_present:
  assumes "transactions \<noteq> []"
  shows "0 \<in> set (map (bucket_of (Min (set transactions)) f) transactions)"
proof -
  have "Min (set transactions) \<in> set transactions"
    using assms by (intro Min_in) auto
  moreover have "bucket_of (Min (set transactions)) f (Min (set transactions)) = 0"
    by (simp add: bucket_of_def)
  ultimately show ?thesis by force
qed

text \<open>
  Claim C8. Take a customer with at least one transaction, all of them within \<open>units\<close>
  buckets of the first (so that the data do not constrain the length). Then the alive
  path has \<open>units + 1\<close> values, one per bucket starting at the bucket of the first
  transaction. The value of bucket \<open>k\<close> is the model's probability at the boundary
  \<open>k + 1\<close> that closes the bucket: with the age \<open>k + 1\<close>, with the number of distinct
  buckets up to \<open>k\<close> that hold a transaction, minus one, as the frequency, and with the
  last such bucket as the recency. The path is plotted against the \<open>units + 1\<close> dates
  that \<^verbatim>\<open>pd.date_range\<close> yields from the first transaction. For a single transaction and
  5 units the path has 6 values and the first one is the model's probability at
  frequency 0 (and age 1, recency 0).
\<close>

theorem alive_path_length:
  "(transactions \<noteq> [] \<and>
    list_all (\<lambda>timestamp. bucket_of (Min (set transactions)) f timestamp \<le> units) transactions \<and>
    k \<le> units \<longrightarrow>
      (\<exists>path_dates path. plot_history_alive m transactions units f = Inr (path_dates, path) \<and>
         length path = units + 1 \<and>
         path ! k = probability_alive_at m (real (k + 1))
           (real (card (bucket_of (Min (set transactions)) f ` set transactions \<inter> {..k})) - 1)
           (real (Max (bucket_of (Min (set transactions)) f ` set transactions \<inter> {..k}))) \<and>
         path_dates = date_range (Min (set transactions)) (units + 1) f)) \<and>
   (\<exists>path_dates path. plot_history_alive m [timestamp] 5 f = Inr (path_dates, path) \<and>
      length path = 6 \<and> path ! 0 = probability_alive_at m 1 0 0)"
proof
  show "transactions \<noteq> [] \<and>
    list_all (\<lambda>timestamp. bucket_of (Min (set transactions)) f timestamp \<le> units) transactions \<and>
    k \<le> units \<longrightarrow>
      (\<exists>path_dates path. plot_history_alive m transactions units f = Inr (path_dates, path) \<and>
         length path = units + 1 \<and>
         path ! k = probability_alive_at m (real (k + 1))
           (real (card (bucket_of (Min (set transactions)) f ` set transactions \<inter> {..k})) - 1)
           (real (Max (bucket_of (Min (set transactions)) f ` set transactions \<inter> {..k}))) \<and>
         path_dates = date_range (Min (set transactions)) (units + 1) f)"
  proof
    assume a: "transactions \<noteq> [] \<and>
      list_all (\<lambda>timestamp. bucket_of (Min (set transactions)) f timestamp \<le> units) transactions \<and>
      k \<le> units"
    then have ne: "transactions \<noteq> []" and k: "k \<le> units" by simp_all
    let ?path = "calculate_alive_path m transactions units f"
    have len: "length ?path = units + 1" by (rule calculate_alive_path_length[OF ne])
    have "?path ! k = alive_at m (map (bucket_of (Min (set transactions)) f) transactions) (k + 1)"
      by (rule calculate_alive_path_nth[OF ne k])
    also have "\<dots> = probability_alive_at m (real (k + 1))
           (real (card (bucket_of (Min (set transactions)) f ` set transactions \<inter> {..k})) - 1)
           (real (Max (bucket_of (Min (set transactions)) f ` set transactions \<inter> {..k})))"
      using alive_at_sets[OF first_bucket_present[OF ne], of m f k] by simp
    finally have val: "?path ! k = probability_alive_at m (real (k + 1))
           (real (card (bucket_of (Min (set transactions)) f ` set transactions \<inter> {..k})) - 1)
           (real (Max (bucket_of (Min (set transactions)) f ` set transactions \<inter> {..k})))" .
    have "plot_history_alive m transactions units f =
        Inr (date_range (Min (set transactions)) (units + 1) f, ?path)"
      using py_min_Min[OF ne] len by (simp add: plot_history_alive_def Let_def)
    with len val show "\<exists>path_dates path. plot_history_alive m transactions units f = Inr (path_dates, path) \<and>
         length path = units + 1 \<and>
         path ! k = probability_alive_at m (real (k + 1))
           (real (card (bucket_of (Min (set transactions)) f ` set transactions \<inter> {..k})) - 1)
           (real (Max (bucket_of (Min (set transactions)) f ` set transactions \<inter> {..k}))) \<and>
         path_dates = date_range (Min (set transactions)) (units + 1) f"
      by blast
  qed
next
  have p: "calculate_alive_path m [timestamp] 5 f
      = map (\<lambda>k. alive_at m [0] (k + 1)) [0..<6]"
    by (simp add: Let_def bucket_of_def)
  have "calculate_alive_path m [timestamp] 5 f ! 0 = alive_at m [0] 1"
    unfolding p by (simp add: upt_rec)
  moreover have "alive_at m [0] 1 = probability_alive_at m 1 0 0"
    by (simp add: alive_at_def)
  moreover have "length (calculate_alive_path m [timestamp] 5 f) = 6"
    unfolding p by simp
  ultimately show "\<exists>path_dates path. plot_history_alive m [timestamp] 5 f = Inr (path_dates, path) \<and>
      length path = 6 \<and> path ! 0 = probability_alive_at m 1 0 0"
    by (simp add: plot_history_alive_def Let_def)
qed

text \<open>
  Transactions on day 3 (twice) and on day 5, with 4 units of a day: the value of bucket
  2 has the age 3, the frequency 1 and the recency 2.
\<close>

theorem alive_path_length_witness:
  "\<exists>path_dates path.
     plot_history_alive example_model [259200, 432007, 259200] 4 Daily = Inr (path_dates, path) \<and>
     length path = 5 \<and> path ! 2 = 1 / 214 \<and>
     path_dates = [259200, 345600, 432000, 518400, 604800]"
proof -
  let ?T = "[259200, 432007, 259200] :: int list"
  have mn: "Min (set ?T) = 259200" by simp
  have h: "?T \<noteq> [] \<and>
      list_all (\<lambda>timestamp. bucket_of (Min (set ?T)) Daily timestamp \<le> 4) ?T \<and> (2::nat) \<le> 4"
    unfolding mn by (simp add: bucket_of_def)
  have b: "bucket_of (Min (set ?T)) Daily ` set ?T \<inter> {..2} = {0, 2}"
    unfolding mn by (auto simp: bucket_of_def)
  have d: "date_range (Min (set ?T)) (4 + 1) Daily = [259200, 345600, 432000, 518400, 604800]"
    unfolding mn by (simp add: date_range_def upt_rec)
  have v: "probability_alive_at example_model (real (2 + 1)) (real (card {0, 2 :: nat}) - 1)
      (real (Max {0, 2 :: nat})) = 1 / 214"
    by (simp add: example_model_def)
  from alive_path_length [of ?T Daily 4 2 example_model 0] h
  obtain path_dates path where
    "plot_history_alive example_model ?T 4 Daily = Inr (path_dates, path)"
    "length path = 4 + 1"
    "path ! 2 = probability_alive_at example_model (real (2 + 1))
       (real (card (bucket_of (Min (set ?T)) Daily ` set ?T \<inter> {..2})) - 1)
       (real (Max (bucket_of (Min (set ?T)) Daily ` set ?T \<inter> {..2})))"
    "path_dates = date_range (Min (set ?T)) (4 + 1) Daily"
    by blast
  then have "plot_history_alive example_model ?T 4 Daily = Inr (path_dates, path) \<and>
     length path = 5 \<and> path ! 2 = 1 / 214 \<and>
     path_dates = [259200, 345600, 432000, 518400, 604800]"
    unfolding b d v by simp
  then show ?thesis by blast
qed

text \<open>The path of these transactions in full, and the dates of a weekly frequency.\<close>

lemma path_value_example:
  "plot_history_alive example_model [259200, 432007, 259200] 4 Daily =
     Inr ([259200, 345600, 432000, 518400, 604800], [1 / 2, 1 / 3, 1 / 214, 1 / 215, 1 / 216])"
  by (simp add: plot_history_alive_def Let_def date_range_def bucket_of_def alive_at_def
      example_model_def upt_rec)

lemma weekly_dates_example:
  "date_range 0 3 Weekly = [259200, 864000, 1468800] \<and> weekday 259200 = 6"
  by (simp add: date_range_def weekday_def upt_rec)

end
